theory Spec2Isabelle
  imports Main "HOL-Library.Word" "HOL-Library.Monad_Syntax"
begin

section \<open>Raw storage\<close>

text \<open>
  A \<open>char\<close> array is a list of bytes. Every access of the source is bounds-checked in
  the model: an access outside the array (undefined behaviour in C++) is the value
  \<open>None\<close>, so that a result \<open>Some s\<close> says that no index outside the array was read
  or written.
\<close>

abbreviation NUL :: char where
  "NUL \<equiv> CHR 0x00"

text \<open>\<open>a[i] = c\<close>\<close>

definition store_at :: "char list \<Rightarrow> nat \<Rightarrow> char \<Rightarrow> char list option" where
  "store_at a i c = (if i < length a then Some (a[i := c]) else None)"

text \<open>\<open>std::copy(src + first, src + last, dst + d_first)\<close>, the two arrays distinct.\<close>

definition std_copy :: "char list \<Rightarrow> nat \<Rightarrow> nat \<Rightarrow> char list \<Rightarrow> nat \<Rightarrow> char list option" where
  "std_copy src first lst dst d_first =
     (if first \<le> lst \<and> lst \<le> length src \<and> d_first + (lst - first) \<le> length dst
      then Some (take d_first dst @ take (lst - first) (drop first src)
                 @ drop (d_first + (lst - first)) dst)
      else None)"

text \<open>\<open>std::fill(a + first, a + last, c)\<close>\<close>

definition std_fill :: "char list \<Rightarrow> nat \<Rightarrow> nat \<Rightarrow> char \<Rightarrow> char list option" where
  "std_fill a first lst c =
     (if first \<le> lst \<and> lst \<le> length a
      then Some (take first a @ replicate (lst - first) c @ drop lst a)
      else None)"

text \<open>
  \<open>std::strlen\<close>: the argument is the array the pointer points into, from the pointer
  on. Without a terminator in it the scan leaves the array.
\<close>

definition strlen :: "char list \<Rightarrow> nat option" where
  "strlen mem =
     (if NUL \<in> set mem then Some (length (takeWhile (\<lambda>c. c \<noteq> NUL) mem)) else None)"

section \<open>\<open>std::to_chars\<close> for integers, base 10\<close>

function digits :: "nat \<Rightarrow> string" where
  "digits n =
     (if n < 10 then [''0123456789'' ! n]
      else digits (n div 10) @ [''0123456789'' ! (n mod 10)])"
  by pat_completeness auto
termination
  by (relation "measure id") auto

declare digits.simps [simp del]

definition decimal :: "int \<Rightarrow> string" where
  "decimal v = (if v < 0 then CHR ''-'' # digits (nat (- v)) else digits (nat v))"

datatype errc = errc_ok | value_too_large

text \<open>
  What a failed \<open>std::to_chars\<close> leaves in \<open>[first, last)\<close> is unspecified by the C++
  standard. The parameter \<open>scratch\<close> is that choice of the library: the byte it leaves at
  an index of the range, or \<open>None\<close> where it leaves the old byte (the empty map is a library
  that writes nothing before it knows that the value fits).
\<close>

definition scribble :: "(nat \<rightharpoonup> char) \<Rightarrow> char list \<Rightarrow> nat \<Rightarrow> nat \<Rightarrow> char list" where
  "scribble scratch a first lst =
     map (\<lambda>i. if first \<le> i \<and> i < lst
               then (case scratch i of Some c \<Rightarrow> c | None \<Rightarrow> a ! i)
               else a ! i) [0..<length a]"

text \<open>\<open>std::to_chars(a + first, a + last, v)\<close>: the array afterwards, \<open>ptr\<close> and \<open>ec\<close>.\<close>

definition to_chars ::
  "(nat \<rightharpoonup> char) \<Rightarrow> char list \<Rightarrow> nat \<Rightarrow> nat \<Rightarrow> int \<Rightarrow> (char list \<times> nat \<times> errc) option" where
  "to_chars scratch a first lst v =
     (if first \<le> lst \<and> lst \<le> length a
      then (let ds = decimal v in
            if length ds \<le> lst - first
            then Some (take first a @ ds @ drop (first + length ds) a,
                       first + length ds, errc_ok)
            else Some (scribble scratch a first lst, lst, value_too_large))
      else None)"

section \<open>\<open>StackString<N>\<close>\<close>

text \<open>
  \<open>char m_data[N + 1]; std::size_t m_size;\<close>  The capacity \<open>N\<close> is the template
  parameter and is passed to every operation. A constructor receives \<open>raw\<close>, the
  indeterminate bytes that the array \<open>m_data\<close> holds before the constructor body runs.
\<close>

record StackString =
  m_data :: "char list"
  m_size :: nat

definition well_formed :: "nat \<Rightarrow> StackString \<Rightarrow> bool" where
  "well_formed N s = (length (m_data s) = N + 1 \<and> m_size s \<le> N)"

definition terminated :: "StackString \<Rightarrow> bool" where
  "terminated s = (m_size s < length (m_data s) \<and> m_data s ! m_size s = NUL)"

text \<open>The logical content \<open>[0, m_size)\<close>, what \<open>operator std::string_view\<close> exposes.\<close>

definition content :: "StackString \<Rightarrow> string" where
  "content s = take (m_size s) (m_data s)"

subsection \<open>Append\<close>

definition append_cstr :: "nat \<Rightarrow> char list option \<Rightarrow> StackString \<Rightarrow> StackString option" where
  "append_cstr N str s =
     (case str of
        None \<Rightarrow> Some s
      | Some mem \<Rightarrow>
          do {
            len \<leftarrow> strlen mem;
            let space_available = N - m_size s;
            let to_copy = (if len > space_available then space_available else len);
            d \<leftarrow> std_copy mem 0 to_copy (m_data s) (m_size s);
            let sz = m_size s + to_copy;
            d' \<leftarrow> store_at d sz NUL;
            Some \<lparr>m_data = d', m_size = sz\<rparr>
          })"

definition append_sv :: "nat \<Rightarrow> char list \<Rightarrow> StackString \<Rightarrow> StackString option" where
  "append_sv N sv s =
     do {
       let space_available = N - m_size s;
       let to_copy = (if length sv > space_available then space_available else length sv);
       d \<leftarrow> std_copy sv 0 to_copy (m_data s) (m_size s);
       let sz = m_size s + to_copy;
       d' \<leftarrow> store_at d sz NUL;
       Some \<lparr>m_data = d', m_size = sz\<rparr>
     }"

definition append_char :: "nat \<Rightarrow> char \<Rightarrow> StackString \<Rightarrow> StackString option" where
  "append_char N c s =
     (if m_size s \<ge> N then Some s
      else do {
        d \<leftarrow> store_at (m_data s) (m_size s) c;
        let sz = m_size s + 1;
        d' \<leftarrow> store_at d sz NUL;
        Some \<lparr>m_data = d', m_size = sz\<rparr>
      })"

definition append_int ::
  "nat \<Rightarrow> (nat \<rightharpoonup> char) \<Rightarrow> int \<Rightarrow> StackString \<Rightarrow> StackString option" where
  "append_int N scratch v s =
     do {
       (d, ptr, ec) \<leftarrow> to_chars scratch (m_data s) (m_size s) N v;
       if ec = errc_ok
       then do {
         d' \<leftarrow> store_at d ptr NUL;
         Some \<lparr>m_data = d', m_size = ptr\<rparr>
       }
       else Some \<lparr>m_data = d, m_size = m_size s\<rparr>
     }"

text \<open>
  The overload set \<open>append\<close>, as overload resolution picks from it by the static type of
  the argument: \<open>const char*\<close> (\<open>None\<close> is the null pointer), \<open>std::string_view\<close>,
  \<open>char\<close>, and the template for the other integral types.
\<close>

datatype arg = CStr "char list option" | View "char list" | Chr char | Integral int

fun append :: "nat \<Rightarrow> (nat \<rightharpoonup> char) \<Rightarrow> arg \<Rightarrow> StackString \<Rightarrow> StackString option" where
  "append N scratch (CStr str) s = append_cstr N str s"
| "append N scratch (View sv) s = append_sv N sv s"
| "append N scratch (Chr c) s = append_char N c s"
| "append N scratch (Integral v) s = append_int N scratch v s"

subsection \<open>Operators\<close>

definition plus_eq_cstr :: "nat \<Rightarrow> char list option \<Rightarrow> StackString \<Rightarrow> StackString option" where
  "plus_eq_cstr N str s = append_cstr N str s"

definition plus_eq_sv :: "nat \<Rightarrow> char list \<Rightarrow> StackString \<Rightarrow> StackString option" where
  "plus_eq_sv N sv s = append_sv N sv s"

definition plus_eq_char :: "nat \<Rightarrow> char \<Rightarrow> StackString \<Rightarrow> StackString option" where
  "plus_eq_char N c s = append_char N c s"

definition plus_eq_int ::
  "nat \<Rightarrow> (nat \<rightharpoonup> char) \<Rightarrow> int \<Rightarrow> StackString \<Rightarrow> StackString option" where
  "plus_eq_int N scratch v s = append_int N scratch v s"

text \<open>\<open>operator<<(T&& value)\<close> is one template for every argument type.\<close>

definition shift_left ::
  "nat \<Rightarrow> (nat \<rightharpoonup> char) \<Rightarrow> arg \<Rightarrow> StackString \<Rightarrow> StackString option" where
  "shift_left N scratch value s = append N scratch value s"

subsection \<open>Modifiers\<close>

definition clear :: "StackString \<Rightarrow> StackString option" where
  "clear s =
     do {
       d \<leftarrow> store_at (m_data s) 0 NUL;
       Some \<lparr>m_data = d, m_size = 0\<rparr>
     }"

definition resize :: "nat \<Rightarrow> nat \<Rightarrow> char \<Rightarrow> StackString \<Rightarrow> StackString option" where
  "resize N count ch s =
     do {
       let count = (if count > N then N else count);
       d \<leftarrow> (if count > m_size s then std_fill (m_data s) (m_size s) count ch
             else Some (m_data s));
       d' \<leftarrow> store_at d count NUL;
       Some \<lparr>m_data = d', m_size = count\<rparr>
     }"

subsection \<open>Constructors\<close>

definition StackString_default :: "char list \<Rightarrow> StackString option" where
  "StackString_default raw =
     do {
       d \<leftarrow> store_at raw 0 NUL;
       Some \<lparr>m_data = d, m_size = 0\<rparr>
     }"

definition StackString_cstr :: "nat \<Rightarrow> char list \<Rightarrow> char list option \<Rightarrow> StackString option" where
  "StackString_cstr N raw str = append_cstr N str \<lparr>m_data = raw, m_size = 0\<rparr>"

definition StackString_sv :: "nat \<Rightarrow> char list \<Rightarrow> char list \<Rightarrow> StackString option" where
  "StackString_sv N raw sv = append_sv N sv \<lparr>m_data = raw, m_size = 0\<rparr>"

text \<open>The fold expression \<open>(append(args), ...)\<close>: left to right.\<close>

fun append_all ::
  "nat \<Rightarrow> (nat \<rightharpoonup> char) \<Rightarrow> arg list \<Rightarrow> StackString \<Rightarrow> StackString option" where
  "append_all N scratch [] s = Some s"
| "append_all N scratch (a # as) s =
     do { s' \<leftarrow> append N scratch a s; append_all N scratch as s' }"

text \<open>The variadic constructor takes part in overload resolution for two or more arguments.\<close>

definition StackString_variadic ::
  "nat \<Rightarrow> (nat \<rightharpoonup> char) \<Rightarrow> char list \<Rightarrow> arg list \<Rightarrow> StackString option" where
  "StackString_variadic N scratch raw args =
     do {
       d \<leftarrow> store_at raw 0 NUL;
       append_all N scratch args \<lparr>m_data = d, m_size = 0\<rparr>
     }"

definition StackString_copy :: "char list \<Rightarrow> StackString \<Rightarrow> StackString option" where
  "StackString_copy raw other =
     do {
       d \<leftarrow> std_copy (m_data other) 0 (m_size other + 1) raw 0;
       Some \<lparr>m_data = d, m_size = m_size other\<rparr>
     }"

text \<open>The move constructor returns the new object and the moved-from one.\<close>

definition StackString_move :: "char list \<Rightarrow> StackString \<Rightarrow> (StackString \<times> StackString) option" where
  "StackString_move raw other =
     do {
       d \<leftarrow> std_copy (m_data other) 0 (m_size other + 1) raw 0;
       other' \<leftarrow> clear other;
       Some (\<lparr>m_data = d, m_size = m_size other\<rparr>, other')
     }"

subsection \<open>Assignment\<close>

text \<open>
  Both assignment operators compare \<open>this\<close> with \<open>&other\<close>, so they are modelled on a
  store of objects: the store is the list of the \<open>StackString<N>\<close> objects alive, and the
  address of an object is its index. A reference to no object of the store is \<open>None\<close>.
\<close>

type_synonym store = "StackString list"

definition assign_copy :: "store \<Rightarrow> nat \<Rightarrow> nat \<Rightarrow> store option" where
  "assign_copy \<sigma> this other =
     (if this < length \<sigma> \<and> other < length \<sigma>
      then if this \<noteq> other
           then do {
             d \<leftarrow> std_copy (m_data (\<sigma> ! other)) 0 (m_size (\<sigma> ! other) + 1)
                           (m_data (\<sigma> ! this)) 0;
             Some (\<sigma>[this := \<lparr>m_data = d, m_size = m_size (\<sigma> ! other)\<rparr>])
           }
           else Some \<sigma>
      else None)"

definition assign_move :: "store \<Rightarrow> nat \<Rightarrow> nat \<Rightarrow> store option" where
  "assign_move \<sigma> this other =
     (if this < length \<sigma> \<and> other < length \<sigma>
      then if this \<noteq> other
           then do {
             d \<leftarrow> std_copy (m_data (\<sigma> ! other)) 0 (m_size (\<sigma> ! other) + 1)
                           (m_data (\<sigma> ! this)) 0;
             other' \<leftarrow> clear (\<sigma> ! other);
             Some (\<sigma>[this := \<lparr>m_data = d, m_size = m_size (\<sigma> ! other)\<rparr>, other := other'])
           }
           else Some \<sigma>
      else None)"

section \<open>\<open>FixedBufAllocator<T>\<close>\<close>

text \<open>
  \<open>std::size_t\<close> and pointers are words of one width \<open>'w\<close>; the null pointer is the
  word 0, and the record is used at \<open>'p = 'w word\<close>. The element size \<open>sizeof(T)\<close>
  is the parameter \<open>sz\<close> of \<open>allocate\<close>, so one record stands for the instances of
  every element type.
\<close>

record 'p FixedBufAllocator =
  m_buffer :: 'p
  m_capacity :: 'p
  m_used :: 'p

definition FixedBufAllocator_ctor :: "'w::len word \<Rightarrow> 'w word \<Rightarrow> 'w word FixedBufAllocator" where
  "FixedBufAllocator_ctor buffer capacity =
     \<lparr>m_buffer = buffer, m_capacity = capacity, m_used = 0\<rparr>"

text \<open>The converting constructor \<open>FixedBufAllocator(const FixedBufAllocator<U>&)\<close>.\<close>

definition FixedBufAllocator_rebind :: "'w::len word FixedBufAllocator \<Rightarrow> 'w word FixedBufAllocator" where
  "FixedBufAllocator_rebind other =
     \<lparr>m_buffer = m_buffer other, m_capacity = m_capacity other, m_used = m_used other\<rparr>"

definition allocate ::
  "'w::len word \<Rightarrow> 'w word \<Rightarrow> 'w word FixedBufAllocator \<Rightarrow> 'w word \<times> 'w word FixedBufAllocator" where
  "allocate sz n a =
     (let bytes = n * sz in
      if m_buffer a \<noteq> 0 \<and> m_used a + bytes \<le> m_capacity a
      then (m_buffer a + m_used a, a\<lparr>m_used := m_used a + bytes\<rparr>)
      else (0, a))"

definition deallocate ::
  "'w::len word \<Rightarrow> 'w word \<Rightarrow> 'w word FixedBufAllocator \<Rightarrow> 'w word FixedBufAllocator" where
  "deallocate p n a = a"

text \<open>
  \<open>operator==\<close> and \<open>operator!=\<close> have no embedding. They are function templates at
  namespace scope, \<open>operator==\<close> reads \<open>a.m_buffer\<close> and \<open>b.m_buffer\<close>, and the three
  data members are private; the one friend declaration of the class names the class
  template itself, for the converting constructor above. An expression \<open>a == b\<close> or
  \<open>a != b\<close> on two allocators therefore does not compile, and there is no comparison
  whose value a function could give.
\<close>

text \<open>A sequence of \<open>allocate\<close> calls: the pointers returned, in order, and the final state.\<close>

fun allocate_seq ::
  "'w::len word \<Rightarrow> 'w word list \<Rightarrow> 'w word FixedBufAllocator \<Rightarrow> 'w word list \<times> 'w word FixedBufAllocator" where
  "allocate_seq sz [] a = ([], a)"
| "allocate_seq sz (n # ns) a =
     (let (p, a') = allocate sz n a; (ps, a'') = allocate_seq sz ns a' in (p # ps, a''))"

section \<open>Byte-sequence append\<close>

lemma append_sv_eq:
  assumes "well_formed N s"
  shows "append_sv N sv s =
    Some \<lparr>m_data = (take (m_size s) (m_data s) @ take (N - m_size s) sv
                     @ drop (m_size s + min (length sv) (N - m_size s)) (m_data s))
                    [m_size s + min (length sv) (N - m_size s) := NUL],
          m_size = m_size s + min (length sv) (N - m_size s)\<rparr>"
  using assms
  by (auto simp: append_sv_def well_formed_def std_copy_def store_at_def Let_def min_def)

lemma append_cstr_eq_sv:
  assumes "NUL \<in> set mem"
  shows "append_cstr N (Some mem) s = append_sv N (takeWhile (\<lambda>c. c \<noteq> NUL) mem) s"
proof -
  let ?c = "takeWhile (\<lambda>c. c \<noteq> NUL) mem"
  have len: "length ?c \<le> length mem" by (rule length_takeWhile_le)
  have tk: "\<And>k. k \<le> length ?c \<Longrightarrow> take k mem = take k ?c"
    by (metis append_eq_conv_conj takeWhile_dropWhile_id take_take min.absorb1)
  show ?thesis
    using assms len tk
    by (auto simp: append_cstr_def append_sv_def strlen_def std_copy_def Let_def)
qed

lemma append_sv_props:
  assumes "well_formed N s"
  shows "\<exists>s'. append_sv N sv s = Some s'
     \<and> m_size s' = m_size s + min (length sv) (N - m_size s)
     \<and> content s' = content s @ take (min (length sv) (N - m_size s)) sv
     \<and> terminated s' \<and> well_formed N s'
     \<and> drop (m_size s' + 1) (m_data s') = drop (m_size s' + 1) (m_data s)"
  using assms
  by (auto simp: append_sv_eq content_def terminated_def well_formed_def min_def nth_append)

lemma StackString_default_props:
  assumes "length raw = N + 1"
  shows "\<exists>s. StackString_default raw = Some s \<and> m_size s = 0 \<and> content s = []
     \<and> terminated s \<and> well_formed N s"
  using assms
  by (auto simp: StackString_default_def store_at_def content_def terminated_def well_formed_def)

text \<open>
  C2. On a string of length \<open>L \<le> N\<close>, \<open>append\<close> of a view or of a non-null C string
  (its length is \<open>strlen\<close>) returns without leaving the array, copies the first
  \<open>min (len, N - L)\<close> bytes of the input to \<open>m_data + L\<close>, adds that count to
  \<open>m_size\<close>, writes the terminator at the new \<open>m_size\<close> and touches no byte behind it;
  there is no error result. A null pointer leaves the string as it is. On a
  default-constructed string the new length is \<open>min (N, len)\<close> and the content is the
  first \<open>m_size\<close> bytes of the input.
\<close>

theorem append_bytes_truncates:
  assumes "well_formed N s" and "NUL \<in> set mem" and "length raw = N + 1"
  shows "(\<exists>s'. append_sv N sv s = Some s'
            \<and> m_size s' = m_size s + min (length sv) (N - m_size s)
            \<and> content s' = content s @ take (min (length sv) (N - m_size s)) sv
            \<and> terminated s' \<and> well_formed N s'
            \<and> drop (m_size s' + 1) (m_data s') = drop (m_size s' + 1) (m_data s))
       \<and> (\<exists>len s'. strlen mem = Some len \<and> append_cstr N (Some mem) s = Some s'
            \<and> m_size s' = m_size s + min len (N - m_size s)
            \<and> content s' = content s @ take (min len (N - m_size s)) mem
            \<and> terminated s' \<and> well_formed N s'
            \<and> drop (m_size s' + 1) (m_data s') = drop (m_size s' + 1) (m_data s))
       \<and> append_cstr N None s = Some s
       \<and> (\<exists>s0 s'. StackString_default raw = Some s0 \<and> append_sv N sv s0 = Some s'
            \<and> m_size s' = min N (length sv) \<and> content s' = take (m_size s') sv
            \<and> terminated s')
       \<and> (\<exists>len s0 s'. strlen mem = Some len \<and> StackString_default raw = Some s0
            \<and> append_cstr N (Some mem) s0 = Some s'
            \<and> m_size s' = min N len \<and> content s' = take (m_size s') mem
            \<and> terminated s')"
proof -
  let ?c = "takeWhile (\<lambda>c. c \<noteq> NUL) mem"
  have sl: "strlen mem = Some (length ?c)"
    using assms(2) by (simp add: strlen_def)
  have tk: "\<And>k. take (min (length ?c) k) mem = take (min (length ?c) k) ?c"
    by (metis append_eq_conv_conj takeWhile_dropWhile_id take_take min.cobounded1 min.absorb1)
  have a: "\<exists>s'. append_sv N sv s = Some s'
            \<and> m_size s' = m_size s + min (length sv) (N - m_size s)
            \<and> content s' = content s @ take (min (length sv) (N - m_size s)) sv
            \<and> terminated s' \<and> well_formed N s'
            \<and> drop (m_size s' + 1) (m_data s') = drop (m_size s' + 1) (m_data s)"
    by (rule append_sv_props [OF assms(1)])
  have b: "\<exists>len s'. strlen mem = Some len \<and> append_cstr N (Some mem) s = Some s'
            \<and> m_size s' = m_size s + min len (N - m_size s)
            \<and> content s' = content s @ take (min len (N - m_size s)) mem
            \<and> terminated s' \<and> well_formed N s'
            \<and> drop (m_size s' + 1) (m_data s') = drop (m_size s' + 1) (m_data s)"
    using append_sv_props [OF assms(1), of ?c]
    by (simp add: append_cstr_eq_sv [OF assms(2)] sl tk)
  have c: "append_cstr N None s = Some s"
    by (simp add: append_cstr_def)
  obtain s0 where s0: "StackString_default raw = Some s0" "m_size s0 = 0" "content s0 = []"
      "well_formed N s0"
    using StackString_default_props [OF assms(3)] by blast
  have d: "\<exists>s0 s'. StackString_default raw = Some s0 \<and> append_sv N sv s0 = Some s'
            \<and> m_size s' = min N (length sv) \<and> content s' = take (m_size s') sv
            \<and> terminated s'"
    using append_sv_props [OF s0(4), of sv] s0(1,2,3)
    by (auto simp: min.commute)
  have e: "\<exists>len s0 s'. strlen mem = Some len \<and> StackString_default raw = Some s0
            \<and> append_cstr N (Some mem) s0 = Some s'
            \<and> m_size s' = min N len \<and> content s' = take (m_size s') mem
            \<and> terminated s'"
    using append_sv_props [OF s0(4), of ?c] s0(1,2,3) tk [of N]
    by (auto simp: append_cstr_eq_sv [OF assms(2)] sl min.commute)
  from a b c d e show ?thesis by blast
qed

theorem append_bytes_truncates_witness:
  "well_formed 3 \<lparr>m_data = ''ab'' @ [NUL, CHR ''z''], m_size = 2\<rparr>
   \<and> NUL \<in> set (''cd'' @ [NUL])
   \<and> length ''zzzz'' = 3 + 1
   \<and> append_sv 3 ''cde'' \<lparr>m_data = ''ab'' @ [NUL, CHR ''z''], m_size = 2\<rparr>
       = Some \<lparr>m_data = ''abc'' @ [NUL], m_size = 3\<rparr>
   \<and> append_cstr 3 (Some (''cd'' @ [NUL])) \<lparr>m_data = ''zzzz'', m_size = 0\<rparr>
       = Some \<lparr>m_data = ''cd'' @ [NUL, CHR ''z''], m_size = 2\<rparr>
   \<and> (\<exists>s'. append_sv 3 ''cde'' \<lparr>m_data = ''ab'' @ [NUL, CHR ''z''], m_size = 2\<rparr> = Some s'
         \<and> m_size s' = 2 + min (length ''cde'') (3 - 2) \<and> terminated s')"
proof -
  let ?s = "\<lparr>m_data = ''ab'' @ [NUL, CHR ''z''], m_size = 2\<rparr>"
  have h1: "well_formed 3 ?s"
    by (simp add: well_formed_def)
  have h2: "NUL \<in> set (''cd'' @ [NUL])"
    by simp
  have h3: "length ''zzzz'' = 3 + 1"
    by simp
  have e1: "append_sv 3 ''cde'' ?s = Some \<lparr>m_data = ''abc'' @ [NUL], m_size = 3\<rparr>"
    by (simp add: append_sv_def std_copy_def store_at_def)
  have e2: "append_cstr 3 (Some (''cd'' @ [NUL])) \<lparr>m_data = ''zzzz'', m_size = 0\<rparr>
       = Some \<lparr>m_data = ''cd'' @ [NUL, CHR ''z''], m_size = 2\<rparr>"
    by (simp add: append_cstr_def strlen_def std_copy_def store_at_def)
  from append_bytes_truncates [OF h1 h2 h3, of "''cde''"]
  obtain s' where s': "append_sv 3 ''cde'' ?s = Some s'"
      "m_size s' = m_size ?s + min (length ''cde'') (3 - m_size ?s)" "terminated s'"
    by blast
  from s' have "\<exists>s'. append_sv 3 ''cde'' ?s = Some s'
         \<and> m_size s' = 2 + min (length ''cde'') (3 - 2) \<and> terminated s'"
    by simp
  with h1 h2 h3 e1 e2 show ?thesis
    by blast
qed

text \<open>
  C4. Appending \<open>s1\<close> and then \<open>s2\<close> to a default-constructed string, each call
  truncating on its own, gives the logical content that one append of \<open>s1 @ s2\<close> to a
  default-constructed string gives: the first \<open>N\<close> bytes of \<open>s1 @ s2\<close>.
\<close>

theorem append_twice_is_append_concat:
  assumes "length raw = N + 1" and "length raw' = N + 1"
  shows "\<exists>s0 a b s0' c.
           StackString_default raw = Some s0 \<and> append_sv N s1 s0 = Some a
         \<and> append_sv N s2 a = Some b
         \<and> StackString_default raw' = Some s0' \<and> append_sv N (s1 @ s2) s0' = Some c
         \<and> content b = content c \<and> m_size b = m_size c
         \<and> content c = take N (s1 @ s2)"
proof -
  obtain s0 where s0: "StackString_default raw = Some s0" "m_size s0 = 0" "content s0 = []"
      "well_formed N s0"
    using StackString_default_props [OF assms(1)] by blast
  obtain s0' where s0': "StackString_default raw' = Some s0'" "m_size s0' = 0"
      "content s0' = []" "well_formed N s0'"
    using StackString_default_props [OF assms(2)] by blast
  obtain a where a: "append_sv N s1 s0 = Some a" "m_size a = min (length s1) N"
      "content a = take (min (length s1) N) s1" "well_formed N a"
    using append_sv_props [OF s0(4), of s1] s0(2,3) by auto
  obtain b where b: "append_sv N s2 a = Some b"
      "m_size b = m_size a + min (length s2) (N - m_size a)"
      "content b = content a @ take (min (length s2) (N - m_size a)) s2"
    using append_sv_props [OF a(4), of s2] by blast
  obtain c where c: "append_sv N (s1 @ s2) s0' = Some c"
      "m_size c = min (length (s1 @ s2)) N"
      "content c = take (min (length (s1 @ s2)) N) (s1 @ s2)"
    using append_sv_props [OF s0'(4), of "s1 @ s2"] s0'(2,3) by auto
  have sz: "m_size b = m_size c"
    using a(2) b(2) c(2) by (auto simp: min_def)
  have ct: "content b = content c"
    using a(2,3) b(3) c(3) by (auto simp: min_def)
  have tk: "content c = take N (s1 @ s2)"
    using c(3) by (simp add: min_def)
  from s0(1) a(1) b(1) s0'(1) c(1) sz ct tk show ?thesis
    by blast
qed

theorem append_twice_is_append_concat_witness:
  "length ''????'' = 3 + 1 \<and> length ''!!!!'' = 3 + 1
   \<and> append_sv 3 ''cd'' (the (append_sv 3 ''ab'' (the (StackString_default ''????''))))
       = Some \<lparr>m_data = ''abc'' @ [NUL], m_size = 3\<rparr>
   \<and> append_sv 3 (''ab'' @ ''cd'') (the (StackString_default ''!!!!''))
       = Some \<lparr>m_data = ''abc'' @ [NUL], m_size = 3\<rparr>
   \<and> (\<exists>s0 a b s0' c.
           StackString_default ''????'' = Some s0 \<and> append_sv 3 ''ab'' s0 = Some a
         \<and> append_sv 3 ''cd'' a = Some b
         \<and> StackString_default ''!!!!'' = Some s0' \<and> append_sv 3 (''ab'' @ ''cd'') s0' = Some c
         \<and> content b = content c \<and> m_size b = m_size c
         \<and> content c = take 3 (''ab'' @ ''cd''))"
proof -
  have h1: "length ''????'' = 3 + 1" and h2: "length ''!!!!'' = 3 + 1"
    by simp_all
  have e1: "append_sv 3 ''cd'' (the (append_sv 3 ''ab'' (the (StackString_default ''????''))))
       = Some \<lparr>m_data = ''abc'' @ [NUL], m_size = 3\<rparr>"
    by (simp add: StackString_default_def append_sv_def std_copy_def store_at_def)
  have e2: "append_sv 3 (''ab'' @ ''cd'') (the (StackString_default ''!!!!''))
       = Some \<lparr>m_data = ''abc'' @ [NUL], m_size = 3\<rparr>"
    by (simp add: StackString_default_def append_sv_def std_copy_def store_at_def)
  from h1 h2 e1 e2 append_twice_is_append_concat [OF h1 h2, of "''ab''" "''cd''"]
  show ?thesis
    by blast
qed

section \<open>Integer append\<close>

lemma length_scribble: "length (scribble scratch a first lst) = length a"
  by (simp add: scribble_def)

lemma take_scribble: "take first (scribble scratch a first lst) = take first a"
  by (rule nth_equalityI) (auto simp: scribble_def)

lemma drop_scribble: "drop lst (scribble scratch a first lst) = drop lst a"
  by (rule nth_equalityI) (auto simp: scribble_def)

lemma append_int_fits:
  assumes "well_formed N s" and "length (decimal v) \<le> N - m_size s"
  shows "\<exists>s'. append_int N scratch v s = Some s'
     \<and> m_size s' = m_size s + length (decimal v)
     \<and> content s' = content s @ decimal v
     \<and> terminated s' \<and> well_formed N s'"
  using assms
  by (auto simp: append_int_def to_chars_def store_at_def content_def terminated_def
      well_formed_def Let_def nth_append)

lemma append_int_rejects:
  assumes "well_formed N s" and "N - m_size s < length (decimal v)"
  shows "\<exists>s'. append_int N scratch v s = Some s'
     \<and> m_size s' = m_size s \<and> content s' = content s \<and> well_formed N s'
     \<and> drop N (m_data s') = drop N (m_data s)"
  using assms
  by (auto simp: append_int_def to_chars_def content_def well_formed_def Let_def
      length_scribble take_scribble drop_scribble)

text \<open>
  C3. Integer append is all or nothing. When the decimal text of \<open>v\<close> is no longer than
  \<open>N - m_size\<close> it is written after the old content, \<open>m_size\<close> grows by its length and
  the terminator follows it. When it is longer, \<open>m_size\<close> and the content
  \<open>[0, m_size)\<close> are what they were, whatever the library left behind \<open>m_size\<close>. Both
  cases return a string, never an error.
\<close>

theorem append_int_atomic:
  assumes "well_formed N s"
  shows "(length (decimal v) \<le> N - m_size s \<longrightarrow>
            (\<exists>s'. append_int N scratch v s = Some s'
               \<and> m_size s' = m_size s + length (decimal v)
               \<and> content s' = content s @ decimal v
               \<and> terminated s' \<and> well_formed N s'))
       \<and> (N - m_size s < length (decimal v) \<longrightarrow>
            (\<exists>s'. append_int N scratch v s = Some s'
               \<and> m_size s' = m_size s \<and> content s' = content s \<and> well_formed N s'))"
  using append_int_fits [OF assms, of v scratch] append_int_rejects [OF assms, of v scratch]
  by blast

theorem append_int_atomic_witness:
  "well_formed 5 \<lparr>m_data = [NUL, NUL, NUL, NUL, NUL, NUL], m_size = 0\<rparr>
   \<and> length (decimal 12345) \<le> 5 - m_size \<lparr>m_data = [NUL, NUL, NUL, NUL, NUL, NUL], m_size = 0\<rparr>
   \<and> (\<exists>s'. append_int 5 Map.empty 12345 \<lparr>m_data = [NUL, NUL, NUL, NUL, NUL, NUL], m_size = 0\<rparr>
              = Some s'
         \<and> m_size s' = 5 \<and> content s' = ''12345'' \<and> terminated s')
   \<and> well_formed 5 \<lparr>m_data = ''12345'' @ [NUL], m_size = 5\<rparr>
   \<and> 5 - m_size \<lparr>m_data = ''12345'' @ [NUL], m_size = 5\<rparr> < length (decimal 6)
   \<and> (\<exists>s'. append_int 5 Map.empty 6 \<lparr>m_data = ''12345'' @ [NUL], m_size = 5\<rparr> = Some s'
         \<and> m_size s' = 5 \<and> content s' = ''12345'')"
proof -
  let ?s0 = "\<lparr>m_data = [NUL, NUL, NUL, NUL, NUL, NUL], m_size = 0\<rparr>"
  let ?s1 = "\<lparr>m_data = ''12345'' @ [NUL], m_size = 5\<rparr>"
  have d1: "decimal 12345 = ''12345''" and d2: "decimal 6 = ''6''"
    by (simp_all add: decimal_def digits.simps)
  have h0: "well_formed 5 ?s0" and h1: "well_formed 5 ?s1"
    by (simp_all add: well_formed_def)
  have f: "length (decimal 12345) \<le> 5 - m_size ?s0"
    by (simp add: d1)
  have g: "5 - m_size ?s1 < length (decimal 6)"
    by (simp add: d2)
  from append_int_atomic [OF h0, of 12345 Map.empty] f
  obtain a where a: "append_int 5 Map.empty 12345 ?s0 = Some a"
      "m_size a = m_size ?s0 + length (decimal 12345)"
      "content a = content ?s0 @ decimal 12345" "terminated a"
    by blast
  from append_int_atomic [OF h1, of 6 Map.empty] g
  obtain b where b: "append_int 5 Map.empty 6 ?s1 = Some b"
      "m_size b = m_size ?s1" "content b = content ?s1"
    by blast
  from a have a': "\<exists>s'. append_int 5 Map.empty 12345 ?s0 = Some s'
         \<and> m_size s' = 5 \<and> content s' = ''12345'' \<and> terminated s'"
    by (simp add: d1 content_def)
  from b have b': "\<exists>s'. append_int 5 Map.empty 6 ?s1 = Some s'
         \<and> m_size s' = 5 \<and> content s' = ''12345''"
    by (simp add: content_def)
  from h0 f a' h1 g b' show ?thesis
    by blast
qed

section \<open>The length of a decimal\<close>

lemma length_digits:
  "0 < k \<Longrightarrow> n < 10 ^ k \<Longrightarrow> length (digits n) \<le> k"
proof (induction k arbitrary: n)
  case 0
  then show ?case by simp
next
  case (Suc k)
  show ?case
  proof (cases "n < 10")
    case True
    then show ?thesis
      by (subst digits.simps) simp
  next
    case False
    with Suc.prems have k: "0 < k"
      by (cases k) auto
    from Suc.prems have "n div 10 < 10 ^ k"
      by (simp add: less_mult_imp_div_less mult.commute)
    from Suc.IH [OF k this] False show ?thesis
      by (subst digits.simps) simp
  qed
qed

text \<open>
  \<open>max_integer_decimal_chars = 20\<close>: the decimal text of a value of a 64-bit type,
  unsigned or signed, has at most 20 characters.
\<close>

lemma length_decimal_64:
  assumes "- (2 ^ 63) \<le> v" and "v < 2 ^ 64"
  shows "length (decimal v) \<le> 20"
proof (cases "v < 0")
  case True
  with assms(1) have "nat (- v) < 10 ^ 19"
    by simp
  from length_digits [OF _ this] True show ?thesis
    by (simp add: decimal_def)
next
  case False
  with assms(2) have "nat v < 10 ^ 20"
    by simp
  from length_digits [OF _ this] False show ?thesis
    by (simp add: decimal_def)
qed

section \<open>\<open>clear\<close> and \<open>resize\<close>\<close>

lemma clear_props:
  assumes "well_formed N s"
  shows "\<exists>c. clear s = Some c \<and> m_size c = 0 \<and> content c = [] \<and> terminated c
     \<and> well_formed N c \<and> clear c = Some c"
  using assms
  by (auto simp: clear_def store_at_def content_def terminated_def well_formed_def)

lemma resize_props:
  assumes "well_formed N s"
  shows "\<exists>s'. resize N count ch s = Some s'
     \<and> m_size s' = min count N
     \<and> content s' = take (min count N) (content s) @ replicate (min count N - m_size s) ch
     \<and> terminated s' \<and> well_formed N s'
     \<and> drop (max (m_size s) (min count N) + 1) (m_data s')
         = drop (max (m_size s) (min count N) + 1) (m_data s)"
  using assms
  by (auto simp: resize_def std_fill_def store_at_def content_def terminated_def
      well_formed_def Let_def min_def max_def nth_append drop_update_cancel)

text \<open>
  C7. On a string of length at most \<open>N\<close>, \<open>resize (count, ch)\<close> returns without leaving
  the array \<open>m_data[0..N]\<close>; the new length is \<open>min (count, N)\<close>; the content is the old
  one cut to that length and, when it grows, followed by copies of \<open>ch\<close>; the terminator
  stands at the new length. \<open>clear\<close> gives length 0, the empty content and the
  terminator at index 0, and a second \<open>clear\<close> changes nothing.
\<close>

theorem resize_clamps_and_clear_idempotent:
  assumes "well_formed N s"
  shows "(\<exists>s'. resize N count ch s = Some s'
            \<and> m_size s' = min count N
            \<and> content s' = take (min count N) (content s) @ replicate (min count N - m_size s) ch
            \<and> terminated s' \<and> well_formed N s')
       \<and> (\<exists>c. clear s = Some c \<and> m_size c = 0 \<and> content c = [] \<and> terminated c
            \<and> well_formed N c \<and> clear c = Some c)"
  using resize_props [OF assms, of count ch] clear_props [OF assms]
  by blast

theorem resize_clamps_and_clear_idempotent_witness:
  "well_formed 4 \<lparr>m_data = ''ab'' @ [NUL, CHR ''?'', CHR ''?''], m_size = 2\<rparr>
   \<and> resize 4 9 (CHR ''x'') \<lparr>m_data = ''ab'' @ [NUL, CHR ''?'', CHR ''?''], m_size = 2\<rparr>
       = Some \<lparr>m_data = ''abxx'' @ [NUL], m_size = 4\<rparr>
   \<and> resize 4 1 (CHR ''x'') \<lparr>m_data = ''ab'' @ [NUL, CHR ''?'', CHR ''?''], m_size = 2\<rparr>
       = Some \<lparr>m_data = ''a'' @ [NUL, NUL, CHR ''?'', CHR ''?''], m_size = 1\<rparr>
   \<and> clear \<lparr>m_data = ''ab'' @ [NUL, CHR ''?'', CHR ''?''], m_size = 2\<rparr>
       = Some \<lparr>m_data = [NUL, CHR ''b'', NUL, CHR ''?'', CHR ''?''], m_size = 0\<rparr>
   \<and> (\<exists>s'. resize 4 9 (CHR ''x'') \<lparr>m_data = ''ab'' @ [NUL, CHR ''?'', CHR ''?''], m_size = 2\<rparr>
              = Some s'
         \<and> m_size s' = min 9 4 \<and> terminated s')"
proof -
  let ?s = "\<lparr>m_data = ''ab'' @ [NUL, CHR ''?'', CHR ''?''], m_size = 2\<rparr>"
  have h: "well_formed 4 ?s"
    by (simp add: well_formed_def)
  have e1: "resize 4 9 (CHR ''x'') ?s = Some \<lparr>m_data = ''abxx'' @ [NUL], m_size = 4\<rparr>"
    by (simp add: resize_def std_fill_def store_at_def numeral_2_eq_2)
  have e2: "resize 4 1 (CHR ''x'') ?s
       = Some \<lparr>m_data = ''a'' @ [NUL, NUL, CHR ''?'', CHR ''?''], m_size = 1\<rparr>"
    by (simp add: resize_def std_fill_def store_at_def)
  have e3: "clear ?s = Some \<lparr>m_data = [NUL, CHR ''b'', NUL, CHR ''?'', CHR ''?''], m_size = 0\<rparr>"
    by (simp add: clear_def store_at_def)
  from resize_clamps_and_clear_idempotent [OF h, of 9 "CHR ''x''"]
  have "\<exists>s'. resize 4 9 (CHR ''x'') ?s = Some s' \<and> m_size s' = min 9 4 \<and> terminated s'"
    by blast
  with h e1 e2 e3 show ?thesis
    by blast
qed

section \<open>Copy and move\<close>

lemma StackString_copy_props:
  assumes "well_formed N other" and "length raw = N + 1"
  shows "\<exists>d. StackString_copy raw other = Some d
     \<and> m_size d = m_size other
     \<and> take (m_size other + 1) (m_data d) = take (m_size other + 1) (m_data other)
     \<and> content d = content other
     \<and> terminated d = terminated other
     \<and> well_formed N d"
  using assms
  by (auto simp: StackString_copy_def std_copy_def content_def terminated_def well_formed_def
      nth_append)

lemma StackString_move_props:
  assumes "well_formed N other" and "length raw = N + 1"
  shows "\<exists>d other'. StackString_move raw other = Some (d, other')
     \<and> m_size d = m_size other
     \<and> take (m_size other + 1) (m_data d) = take (m_size other + 1) (m_data other)
     \<and> content d = content other
     \<and> terminated d = terminated other
     \<and> well_formed N d
     \<and> m_size other' = 0 \<and> content other' = [] \<and> terminated other' \<and> well_formed N other'"
  using assms
  by (auto simp: StackString_move_def std_copy_def clear_def store_at_def content_def
      terminated_def well_formed_def nth_append)

lemma assign_copy_props:
  assumes "this < length \<sigma>" and "other < length \<sigma>" and "this \<noteq> other"
    and "well_formed N (\<sigma> ! this)" and "well_formed N (\<sigma> ! other)"
  shows "\<exists>\<sigma>'. assign_copy \<sigma> this other = Some \<sigma>'
     \<and> length \<sigma>' = length \<sigma>
     \<and> m_size (\<sigma>' ! this) = m_size (\<sigma> ! other)
     \<and> take (m_size (\<sigma> ! other) + 1) (m_data (\<sigma>' ! this))
         = take (m_size (\<sigma> ! other) + 1) (m_data (\<sigma> ! other))
     \<and> content (\<sigma>' ! this) = content (\<sigma> ! other)
     \<and> terminated (\<sigma>' ! this) = terminated (\<sigma> ! other)
     \<and> well_formed N (\<sigma>' ! this)
     \<and> \<sigma>' ! other = \<sigma> ! other"
  using assms
  by (auto simp: assign_copy_def std_copy_def content_def terminated_def well_formed_def
      nth_append)

lemma assign_move_props:
  assumes "this < length \<sigma>" and "other < length \<sigma>" and "this \<noteq> other"
    and "well_formed N (\<sigma> ! this)" and "well_formed N (\<sigma> ! other)"
  shows "\<exists>\<sigma>'. assign_move \<sigma> this other = Some \<sigma>'
     \<and> length \<sigma>' = length \<sigma>
     \<and> m_size (\<sigma>' ! this) = m_size (\<sigma> ! other)
     \<and> take (m_size (\<sigma> ! other) + 1) (m_data (\<sigma>' ! this))
         = take (m_size (\<sigma> ! other) + 1) (m_data (\<sigma> ! other))
     \<and> content (\<sigma>' ! this) = content (\<sigma> ! other)
     \<and> terminated (\<sigma>' ! this) = terminated (\<sigma> ! other)
     \<and> well_formed N (\<sigma>' ! this)
     \<and> m_size (\<sigma>' ! other) = 0 \<and> content (\<sigma>' ! other) = [] \<and> terminated (\<sigma>' ! other)
     \<and> well_formed N (\<sigma>' ! other)"
  using assms
  by (auto simp: assign_move_def std_copy_def clear_def store_at_def content_def
      terminated_def well_formed_def nth_append)

lemma assign_self:
  assumes "this < length \<sigma>"
  shows "assign_copy \<sigma> this this = Some \<sigma> \<and> assign_move \<sigma> this this = Some \<sigma>"
  using assms by (simp add: assign_copy_def assign_move_def)

text \<open>
  C8, as the code has it. Self-assignment is guarded (\<open>this != &other\<close>): a string moved
  into itself is left as it is and is not reset, so the claim fails there.
\<close>

theorem self_move_assign_keeps_source:
  "assign_move [\<lparr>m_data = ''ab'' @ [NUL], m_size = 2\<rparr>] 0 0
     = Some [\<lparr>m_data = ''ab'' @ [NUL], m_size = 2\<rparr>]
   \<and> m_size ([\<lparr>m_data = ''ab'' @ [NUL], m_size = 2\<rparr>] ! 0) \<noteq> 0"
  by (simp add: assign_move_def)

text \<open>
  C8, amended. For a source of length at most \<open>N\<close> and a destination that is another
  object, copy construction, copy assignment, move construction and move assignment give
  the destination the source's \<open>m_size\<close> and the source's bytes \<open>[0, m_size]\<close>, the
  byte at \<open>m_size\<close> (the terminator, when the source has it there) included. The two
  moves leave the source with length 0 and the terminator at index 0; copy assignment
  leaves the source as it was. Assigning an object to itself, by copy or by move, changes
  nothing.
\<close>

theorem copy_and_move_transfer_content:
  assumes "this < length \<sigma>" and "other < length \<sigma>" and "this \<noteq> other"
    and "well_formed N (\<sigma> ! this)" and "well_formed N (\<sigma> ! other)"
    and "length raw = N + 1"
  shows "(\<exists>d. StackString_copy raw (\<sigma> ! other) = Some d
            \<and> m_size d = m_size (\<sigma> ! other)
            \<and> take (m_size (\<sigma> ! other) + 1) (m_data d)
                = take (m_size (\<sigma> ! other) + 1) (m_data (\<sigma> ! other))
            \<and> terminated d = terminated (\<sigma> ! other))
       \<and> (\<exists>d other'. StackString_move raw (\<sigma> ! other) = Some (d, other')
            \<and> m_size d = m_size (\<sigma> ! other)
            \<and> take (m_size (\<sigma> ! other) + 1) (m_data d)
                = take (m_size (\<sigma> ! other) + 1) (m_data (\<sigma> ! other))
            \<and> terminated d = terminated (\<sigma> ! other)
            \<and> m_size other' = 0 \<and> terminated other')
       \<and> (\<exists>\<sigma>'. assign_copy \<sigma> this other = Some \<sigma>'
            \<and> m_size (\<sigma>' ! this) = m_size (\<sigma> ! other)
            \<and> take (m_size (\<sigma> ! other) + 1) (m_data (\<sigma>' ! this))
                = take (m_size (\<sigma> ! other) + 1) (m_data (\<sigma> ! other))
            \<and> terminated (\<sigma>' ! this) = terminated (\<sigma> ! other)
            \<and> \<sigma>' ! other = \<sigma> ! other)
       \<and> (\<exists>\<sigma>'. assign_move \<sigma> this other = Some \<sigma>'
            \<and> m_size (\<sigma>' ! this) = m_size (\<sigma> ! other)
            \<and> take (m_size (\<sigma> ! other) + 1) (m_data (\<sigma>' ! this))
                = take (m_size (\<sigma> ! other) + 1) (m_data (\<sigma> ! other))
            \<and> terminated (\<sigma>' ! this) = terminated (\<sigma> ! other)
            \<and> m_size (\<sigma>' ! other) = 0 \<and> terminated (\<sigma>' ! other))
       \<and> assign_copy \<sigma> this this = Some \<sigma>
       \<and> assign_move \<sigma> this this = Some \<sigma>"
proof -
  note cc = StackString_copy_props [OF assms(5,6)]
  note mc = StackString_move_props [OF assms(5,6)]
  note ca = assign_copy_props [OF assms(1-5)]
  note ma = assign_move_props [OF assms(1-5)]
  note sa = assign_self [OF assms(1)]
  from cc mc ca ma sa show ?thesis
    by blast
qed

theorem copy_and_move_transfer_content_witness:
  "(0::nat) < length [\<lparr>m_data = ''xyz'', m_size = 0\<rparr>, \<lparr>m_data = ''ab'' @ [NUL], m_size = 2\<rparr>]
   \<and> (1::nat) < length [\<lparr>m_data = ''xyz'', m_size = 0\<rparr>, \<lparr>m_data = ''ab'' @ [NUL], m_size = 2\<rparr>]
   \<and> (0::nat) \<noteq> 1
   \<and> well_formed 2 ([\<lparr>m_data = ''xyz'', m_size = 0\<rparr>, \<lparr>m_data = ''ab'' @ [NUL], m_size = 2\<rparr>] ! 0)
   \<and> well_formed 2 ([\<lparr>m_data = ''xyz'', m_size = 0\<rparr>, \<lparr>m_data = ''ab'' @ [NUL], m_size = 2\<rparr>] ! 1)
   \<and> length ''???'' = 2 + 1
   \<and> assign_move [\<lparr>m_data = ''xyz'', m_size = 0\<rparr>, \<lparr>m_data = ''ab'' @ [NUL], m_size = 2\<rparr>] 0 1
       = Some [\<lparr>m_data = ''ab'' @ [NUL], m_size = 2\<rparr>, \<lparr>m_data = [NUL, CHR ''b'', NUL], m_size = 0\<rparr>]
   \<and> assign_copy [\<lparr>m_data = ''xyz'', m_size = 0\<rparr>, \<lparr>m_data = ''ab'' @ [NUL], m_size = 2\<rparr>] 0 1
       = Some [\<lparr>m_data = ''ab'' @ [NUL], m_size = 2\<rparr>, \<lparr>m_data = ''ab'' @ [NUL], m_size = 2\<rparr>]
   \<and> StackString_move ''???'' \<lparr>m_data = ''ab'' @ [NUL], m_size = 2\<rparr>
       = Some (\<lparr>m_data = ''ab'' @ [NUL], m_size = 2\<rparr>, \<lparr>m_data = [NUL, CHR ''b'', NUL], m_size = 0\<rparr>)
   \<and> (\<exists>\<sigma>'. assign_move [\<lparr>m_data = ''xyz'', m_size = 0\<rparr>, \<lparr>m_data = ''ab'' @ [NUL], m_size = 2\<rparr>] 0 1
              = Some \<sigma>'
         \<and> m_size (\<sigma>' ! 1) = 0 \<and> terminated (\<sigma>' ! 1))"
proof -
  let ?\<sigma> = "[\<lparr>m_data = ''xyz'', m_size = 0\<rparr>, \<lparr>m_data = ''ab'' @ [NUL], m_size = 2\<rparr>]"
  have h1: "(0::nat) < length ?\<sigma>" and h2: "(1::nat) < length ?\<sigma>" and h3: "(0::nat) \<noteq> 1"
    and h4: "well_formed 2 (?\<sigma> ! 0)" and h5: "well_formed 2 (?\<sigma> ! 1)"
    and h6: "length ''???'' = 2 + 1"
    by (simp_all add: well_formed_def)
  have e1: "assign_move ?\<sigma> 0 1
       = Some [\<lparr>m_data = ''ab'' @ [NUL], m_size = 2\<rparr>, \<lparr>m_data = [NUL, CHR ''b'', NUL], m_size = 0\<rparr>]"
    by (simp add: assign_move_def std_copy_def clear_def store_at_def)
  have e2: "assign_copy ?\<sigma> 0 1
       = Some [\<lparr>m_data = ''ab'' @ [NUL], m_size = 2\<rparr>, \<lparr>m_data = ''ab'' @ [NUL], m_size = 2\<rparr>]"
    by (simp add: assign_copy_def std_copy_def)
  have e3: "StackString_move ''???'' \<lparr>m_data = ''ab'' @ [NUL], m_size = 2\<rparr>
       = Some (\<lparr>m_data = ''ab'' @ [NUL], m_size = 2\<rparr>, \<lparr>m_data = [NUL, CHR ''b'', NUL], m_size = 0\<rparr>)"
    by (simp add: StackString_move_def std_copy_def clear_def store_at_def)
  from copy_and_move_transfer_content [OF h1 h2 h3 h4 h5 h6]
  have "\<exists>\<sigma>'. assign_move ?\<sigma> 0 1 = Some \<sigma>' \<and> m_size (\<sigma>' ! 1) = 0 \<and> terminated (\<sigma>' ! 1)"
    by blast
  with h1 h2 h3 h4 h5 h6 e1 e2 e3 show ?thesis
    by blast
qed

section \<open>The terminator\<close>

lemma append_char_props:
  assumes "well_formed N s" and "terminated s"
  shows "\<exists>s'. append_char N c s = Some s'
     \<and> m_size s' = (if m_size s < N then m_size s + 1 else m_size s)
     \<and> content s' = (if m_size s < N then content s @ [c] else content s)
     \<and> terminated s' \<and> well_formed N s'"
  using assms
  by (auto simp: append_char_def store_at_def content_def terminated_def well_formed_def
      take_Suc_conv_app_nth)

lemma nth_scribble_untouched:
  assumes "i < length a" and "scratch i = None"
  shows "scribble scratch a first lst ! i = a ! i"
  using assms by (simp add: scribble_def)

lemma append_int_keeps_terminator:
  assumes "well_formed N s" and "terminated s" and "scratch (m_size s) = None"
  shows "\<exists>s'. append_int N scratch v s = Some s' \<and> terminated s' \<and> well_formed N s'"
proof (cases "length (decimal v) \<le> N - m_size s")
  case True
  from append_int_fits [OF assms(1) True] show ?thesis
    by blast
next
  case False
  with assms show ?thesis
    by (auto simp: append_int_def to_chars_def terminated_def well_formed_def Let_def
        length_scribble nth_scribble_untouched)
qed

lemma append_keeps_terminator:
  assumes "well_formed N s" and "terminated s"
    and "\<And>mem. a = CStr (Some mem) \<Longrightarrow> NUL \<in> set mem"
  shows "\<exists>s'. append N Map.empty a s = Some s' \<and> terminated s' \<and> well_formed N s'"
proof (cases a)
  case (CStr str)
  show ?thesis
  proof (cases str)
    case None
    with CStr assms(1,2) show ?thesis
      by (simp add: append_cstr_def)
  next
    case (Some mem)
    with CStr assms(3) have "NUL \<in> set mem"
      by simp
    with CStr Some append_sv_props [OF assms(1)] show ?thesis
      by (simp add: append_cstr_eq_sv) blast
  qed
next
  case (View sv)
  with append_sv_props [OF assms(1), of sv] show ?thesis
    by auto
next
  case (Chr c)
  with append_char_props [OF assms(1,2), of c] show ?thesis
    by auto
next
  case (Integral v)
  with append_int_keeps_terminator [OF assms(1,2), of Map.empty v] show ?thesis
    by auto
qed

lemma append_all_keeps_terminator:
  assumes "well_formed N s" and "terminated s"
    and "\<And>mem. CStr (Some mem) \<in> set args \<Longrightarrow> NUL \<in> set mem"
  shows "\<exists>s'. append_all N Map.empty args s = Some s' \<and> terminated s' \<and> well_formed N s'"
  using assms
proof (induction args arbitrary: s)
  case Nil
  then show ?case by simp
next
  case (Cons a args)
  from Cons.prems(3) have "\<And>mem. a = CStr (Some mem) \<Longrightarrow> NUL \<in> set mem"
    by simp
  from append_keeps_terminator [OF Cons.prems(1,2) this]
  obtain s' where s': "append N Map.empty a s = Some s'" "terminated s'" "well_formed N s'"
    by blast
  from Cons.prems(3) have "\<And>mem. CStr (Some mem) \<in> set args \<Longrightarrow> NUL \<in> set mem"
    by simp
  from Cons.IH [OF s'(3,2) this] s'(1) show ?case
    by simp
qed

lemma constructors_terminate:
  assumes "length raw = N + 1" and "NUL \<in> set mem"
    and "\<And>m. CStr (Some m) \<in> set args \<Longrightarrow> NUL \<in> set m"
  shows "\<exists>s. StackString_default raw = Some s \<and> terminated s \<and> well_formed N s"
    and "\<exists>s. StackString_sv N raw sv = Some s \<and> terminated s \<and> well_formed N s"
    and "\<exists>s. StackString_cstr N raw (Some mem) = Some s \<and> terminated s \<and> well_formed N s"
    and "\<exists>s. StackString_variadic N Map.empty raw args = Some s \<and> terminated s
           \<and> well_formed N s"
proof -
  have w: "well_formed N \<lparr>m_data = raw, m_size = 0\<rparr>"
    using assms(1) by (simp add: well_formed_def)
  show "\<exists>s. StackString_default raw = Some s \<and> terminated s \<and> well_formed N s"
    using StackString_default_props [OF assms(1)] by blast
  show "\<exists>s. StackString_sv N raw sv = Some s \<and> terminated s \<and> well_formed N s"
    using append_sv_props [OF w, of sv] by (auto simp: StackString_sv_def)
  show "\<exists>s. StackString_cstr N raw (Some mem) = Some s \<and> terminated s \<and> well_formed N s"
    using append_sv_props [OF w, of "takeWhile (\<lambda>c. c \<noteq> NUL) mem"]
    by (auto simp: StackString_cstr_def append_cstr_eq_sv [OF assms(2)])
  have d: "StackString_default raw = Some \<lparr>m_data = raw[0 := NUL], m_size = 0\<rparr>"
    using assms(1) by (simp add: StackString_default_def store_at_def)
  with StackString_default_props [OF assms(1)]
  have "terminated \<lparr>m_data = raw[0 := NUL], m_size = 0\<rparr>"
    and "well_formed N \<lparr>m_data = raw[0 := NUL], m_size = 0\<rparr>"
    by auto
  from append_all_keeps_terminator [OF this(2,1) assms(3)]
  show "\<exists>s. StackString_variadic N Map.empty raw args = Some s \<and> terminated s
           \<and> well_formed N s"
    using assms(1) by (simp add: StackString_variadic_def store_at_def)
qed

text \<open>
  The C++ standard leaves the bytes of \<open>[first, last)\<close> unspecified after a failed
  \<open>std::to_chars\<close>. With a library that has written a leading digit by then, a rejected
  integer append overwrites the terminator and leaves \<open>m_size\<close> where it was.
\<close>

lemma append_int_scratch_example:
  "append_int 3 [2 \<mapsto> CHR ''4''] 45 \<lparr>m_data = ''12'' @ [NUL, NUL], m_size = 2\<rparr>
     = Some \<lparr>m_data = ''124'' @ [NUL], m_size = 2\<rparr>"
  by (simp add: append_int_def to_chars_def scribble_def decimal_def digits.simps upt_rec)

text \<open>
  The same for a library that writes the sign of a negative value before it looks at the
  room left for the digits.
\<close>

lemma append_int_sign_scratch_example:
  "append_int 3 [2 \<mapsto> CHR ''-''] (- 45) \<lparr>m_data = ''12'' @ [NUL, NUL], m_size = 2\<rparr>
     = Some \<lparr>m_data = ''12-'' @ [NUL], m_size = 2\<rparr>
   \<and> \<not> terminated \<lparr>m_data = ''12-'' @ [NUL], m_size = 2\<rparr>"
  by (simp add: append_int_def to_chars_def scribble_def decimal_def digits.simps upt_rec
      terminated_def)

text \<open>
  C1 at the constructor from \<open>const char*\<close>, called with a null pointer over storage
  whose first byte is not 0: \<open>append\<close> returns at once, nothing is written to
  \<open>m_data\<close>, and \<open>m_data[m_size]\<close> is not the terminator. The default and the variadic
  constructor write \<open>m_data[0]\<close> themselves before anything else.
\<close>

theorem null_cstr_ctor_not_terminated:
  "StackString_cstr 3 ''????'' None = Some \<lparr>m_data = ''????'', m_size = 0\<rparr>
   \<and> \<not> terminated \<lparr>m_data = ''????'', m_size = 0\<rparr>
   \<and> StackString_default ''????'' = Some \<lparr>m_data = NUL # ''???'', m_size = 0\<rparr>
   \<and> terminated \<lparr>m_data = NUL # ''???'', m_size = 0\<rparr>"
  by (simp add: StackString_cstr_def StackString_default_def append_cstr_def store_at_def
      terminated_def)

section \<open>Operators\<close>

text \<open>
  C10. For a C string, a view, a single \<open>char\<close> and an integer, \<open>operator+=\<close> and
  \<open>operator<<\<close> return what \<open>append\<close> returns for that argument, on every string.
\<close>

theorem operators_forward_to_append:
  "plus_eq_cstr N str s = append N scratch (CStr str) s
   \<and> plus_eq_sv N sv s = append N scratch (View sv) s
   \<and> plus_eq_char N c s = append N scratch (Chr c) s
   \<and> plus_eq_int N scratch v s = append N scratch (Integral v) s
   \<and> shift_left N scratch a s = append N scratch a s
   \<and> shift_left N scratch (CStr str) s = plus_eq_cstr N str s
   \<and> shift_left N scratch (View sv) s = plus_eq_sv N sv s
   \<and> shift_left N scratch (Chr c) s = plus_eq_char N c s
   \<and> shift_left N scratch (Integral v) s = plus_eq_int N scratch v s"
  by (simp add: plus_eq_cstr_def plus_eq_sv_def plus_eq_char_def plus_eq_int_def
      shift_left_def)

section \<open>Allocation\<close>

lemma allocate_fits:
  fixes a :: "'w::len word FixedBufAllocator"
  assumes "m_buffer a \<noteq> 0"
    and "unat (m_used a) + unat n * unat sz \<le> unat (m_capacity a)"
  shows "allocate sz n a = (m_buffer a + m_used a, a\<lparr>m_used := m_used a + n * sz\<rparr>)"
    and "unat (m_used a + n * sz) = unat (m_used a) + unat n * unat sz"
proof -
  have cap: "unat (m_capacity a) < 2 ^ LENGTH('w)"
    by (rule unsigned_less)
  have lt: "unat (m_used a) + unat n * unat sz < 2 ^ LENGTH('w)"
    using assms(2) cap by linarith
  have m: "unat (n * sz) = unat n * unat sz"
    using lt by (simp add: unat_mult_lem [THEN iffD1])
  show s: "unat (m_used a + n * sz) = unat (m_used a) + unat n * unat sz"
    using lt m by (simp add: unat_add_lem [THEN iffD1])
  have "m_used a + n * sz \<le> m_capacity a"
    using assms(2) s by (simp add: word_le_nat_alt)
  then show "allocate sz n a = (m_buffer a + m_used a, a\<lparr>m_used := m_used a + n * sz\<rparr>)"
    using assms(1) by (simp add: allocate_def)
qed

lemma allocate_exhausted:
  fixes a :: "'w::len word FixedBufAllocator"
  assumes "unat (m_capacity a) < unat (m_used a) + unat n * unat sz"
    and "unat (m_used a) + unat n * unat sz < 2 ^ LENGTH('w)"
  shows "allocate sz n a = (0, a)"
proof -
  have m: "unat (n * sz) = unat n * unat sz"
    using assms(2) by (simp add: unat_mult_lem [THEN iffD1])
  have s: "unat (m_used a + n * sz) = unat (m_used a) + unat n * unat sz"
    using assms(2) m by (simp add: unat_add_lem [THEN iffD1])
  have "\<not> m_used a + n * sz \<le> m_capacity a"
    using assms(1) s by (simp add: word_le_nat_alt)
  then show ?thesis
    by (simp add: allocate_def)
qed

lemma allocate_null_buffer:
  "m_buffer a = 0 \<Longrightarrow> allocate sz n a = (0, a)"
  by (simp add: allocate_def)

lemma deallocate_noop: "m_used (deallocate p n a) = m_used a"
  by (simp add: deallocate_def)

text \<open>
  C5 at a request whose byte count wraps around in \<open>std::size_t\<close> (64 bits here). A
  \<open>char\<close> allocator over 16 bytes at address 4096 serves 10 bytes; then
  \<open>allocate (2^64 - 5)\<close> finds \<open>m_used + bytes = 5 \<le> 16\<close>, returns the non-null pointer
  \<open>4096 + 10\<close> and sets \<open>m_used\<close> to 5, below the 10 it was.
\<close>

theorem allocate_wraps_around:
  "allocate 1 10 (FixedBufAllocator_ctor (4096 :: 64 word) 16)
     = (4096, \<lparr>m_buffer = 4096, m_capacity = 16, m_used = 10\<rparr>)
   \<and> allocate 1 18446744073709551611 \<lparr>m_buffer = 4096 :: 64 word, m_capacity = 16, m_used = 10\<rparr>
     = (4106, \<lparr>m_buffer = 4096, m_capacity = 16, m_used = 5\<rparr>)
   \<and> unat (16 :: 64 word) < unat (10 :: 64 word) + unat (18446744073709551611 :: 64 word) * unat (1 :: 64 word)"
  by (simp add: allocate_def FixedBufAllocator_ctor_def)

text \<open>
  The converting constructor, which rebinding goes through, copies the buffer pointer,
  the capacity and \<open>m_used\<close> as they are at that moment.
\<close>

lemma rebind_copies_fields:
  "m_buffer (FixedBufAllocator_rebind a) = m_buffer a
   \<and> m_capacity (FixedBufAllocator_rebind a) = m_capacity a
   \<and> m_used (FixedBufAllocator_rebind a) = m_used a"
  by (simp add: FixedBufAllocator_rebind_def)

lemma allocate_seq_null_buffer:
  "m_buffer a = 0 \<Longrightarrow> allocate_seq sz ns a = (replicate (length ns) 0, a)"
  by (induction ns) (simp_all add: allocate_null_buffer)

text \<open>
  C9. An allocator constructed over the null pointer has \<open>m_used = 0\<close>, and every
  \<open>allocate\<close> on it, alone or anywhere in a sequence of calls, returns the null pointer and
  leaves the allocator as constructed.
\<close>

theorem null_buffer_never_allocates:
  "m_used (FixedBufAllocator_ctor 0 capacity) = 0
   \<and> allocate sz n (FixedBufAllocator_ctor 0 capacity) = (0, FixedBufAllocator_ctor 0 capacity)
   \<and> allocate_seq sz ns (FixedBufAllocator_ctor 0 capacity)
       = (replicate (length ns) 0, FixedBufAllocator_ctor 0 capacity)"
proof -
  have b: "m_buffer (FixedBufAllocator_ctor 0 capacity) = 0"
    and u: "m_used (FixedBufAllocator_ctor 0 capacity) = 0"
    by (simp_all add: FixedBufAllocator_ctor_def)
  from u allocate_null_buffer [OF b] allocate_seq_null_buffer [OF b] show ?thesis
    by blast
qed

end
